theory Spec2Isabelle
  imports Main
begin

section \<open>The parent component of zoid: src/component/parent/index.js\<close>

text \<open>
  The class \<open>ParentComponent\<close> is embedded as functions over an explicit state: the
  fields of the instance together with the two process-wide registries
  \<open>global.props\<close> and \<open>global.windows\<close>. Everything the instance does to the outside
  (callbacks of the host, the driver, the DOM helpers, the logger) is appended to a
  trace, so that a statement about what the host observes is a statement about the trace.

  A \<open>ZalgoPromise\<close> is modelled by the state it has reached when the call that made
  it returns: resolved with a value, rejected with an error, or still pending. A
  \<open>ZalgoPromise\<close> runs its handlers synchronously as soon as it settles, so the
  handlers of a settled promise have run when the call returns and the handlers of a
  pending one have not. How an outside call settles is not decided by this file: it is
  read from an environment, which may answer differently after every event. A pending
  promise stays pending in this model; the order in which the tasks of \<open>render\<close> may
  settle is the subject of the task graph further down.

  Three things are taken for granted about the collaborators: a callback does not call
  back into the instance while it runs; the logger, the DOM helpers and the
  serializer do not throw; a cleanup action does not throw.
\<close>

subsection \<open>Values\<close>

text \<open>\<open>Error msg\<close> is \<open>new Error(msg)\<close>; \<open>ComponentError msg\<close> is
  \<open>this.component.createError(msg)\<close>, whose wrapping of the message belongs to the
  component definition.\<close>

datatype error = Error string | ComponentError string

datatype 'a promise = Resolved 'a | Rejected error | Pending

text \<open>The members of \<open>CLOSE_REASONS\<close>, \<open>CONTEXT_TYPES\<close>, \<open>ANIMATION_NAMES\<close>,
  \<open>WINDOW_REFERENCES\<close> and \<open>INITIAL_PROPS\<close> (../../constants) that this file names. A
  window reference and an initial-props descriptor carry the fields the file puts
  beside the tag.\<close>

datatype close_reason = PARENT_CALL | USER_CLOSED | CLOSE_DETECTED

datatype context_type = IFRAME | POPUP

datatype animation_name = SHOW_CONTAINER | SHOW_COMPONENT | HIDE_CONTAINER | HIDE_COMPONENT

datatype window_reference = OPENER | TOP | PARENT nat | GLOBAL string

datatype initial_props = RAW string | UID string

text \<open>A width or height handed to \<open>resize\<close>: a number or a string.\<close>

datatype dimension = Num nat | Str string

text \<open>The element handed to \<open>renderTo\<close>: a selector, or a truthy value that is not a
  string, with what \<open>typeof\<close> and the template literal print for it.\<close>

datatype element_ref = Selector string | NotString string string

text \<open>What \<open>serializeMessage\<close> is given: the props for the child, or the exports of
  the parent for a proxy window.\<close>

datatype message = PropsForChild | ParentExports nat

text \<open>The functions this file hands to \<open>clean.register\<close>: the two deletions from the
  global registries, and any other closure, known by a label only.\<close>

datatype cleanup_action =
    DeleteGlobalWindows string
  | DeleteGlobalProps string
  | Closure string

text \<open>What the instance does to the outside.\<close>

datatype event =
    Log string
  | TriggerEvent string
  | OnClose close_reason
  | OnError nat error
  | CleanAll
  | Cleaned cleanup_action
  | AnimateAndHide nat animation_name
  | ChildClose
  | DriverResize "dimension option" "dimension option"
  | SetOverflow nat string
  | ElementStoppedMoving nat
  | ResetOverflow nat string
  | IsClosed nat
  | Delay nat
  | RenderTemplate nat
  | HideElement nat
  | AppendChild nat nat

text \<open>\<open>this.props\<close>, as far as this file reads it by name: \<open>onError\<close> is optional (a
  handle of the host's callback); \<open>onClose\<close> is called unconditionally.\<close>

record props =
  onError :: "nat option"

text \<open>The instance and the process-wide state. \<open>this.onInit\<close> is created by the first
  statement of the constructor, so it exists in every state a method sees;
  \<open>ctor_props\<close> are the props the constructor was given, which its error handler
  holds. The cache of belter's decorator \<open>@memoized\<close> is kept in two parts, by the
  type of the cached result: the promises, by method name and argument list, and the
  element of \<open>getOutlet\<close>, which takes no argument. The memoized methods modelled
  here are called with no argument or with one reason, so an argument list is \<open>None\<close>
  (no argument) or \<open>Some reason\<close>. A DOM element is the index of its node in
  \<open>dom_nodes\<close> (tag and class list).\<close>

record state =
  ctx :: context_type
  props_of :: props
  ctor_props :: props
  errored :: bool
  onInit :: "unit promise"
  memoized_tbl :: "string \<times> close_reason option \<rightharpoonup> unit promise"
  outlet_memo :: "nat option"
  clean :: "(string option \<times> cleanup_action) list"
  container :: "nat option"
  element :: "nat option"
  childExports :: bool
  triggered :: "string list"
  trace :: "event list"
  global_props :: "string \<rightharpoonup> string"
  global_windows :: "string \<rightharpoonup> nat"
  uid_calls :: nat
  dom_nodes :: "(string \<times> string list) list"
  overflow_style :: "nat \<Rightarrow> string"

text \<open>The options object \<open>renderTemplate\<close> hands to a template: the tag, the context,
  the outlet and, of its actions, \<open>close\<close>, a closure over the instance. The id, the
  props, the constant tables, \<open>actions.focus\<close>, \<open>on\<close>, \<open>jsxDom\<close>, the document, the
  dimensions and the container are not modelled.\<close>

record render_options =
  options_tag :: string
  options_context :: context_type
  options_outlet :: nat
  actions_close :: "state \<Rightarrow> unit promise \<times> state"

text \<open>The collaborators of the file, none of them under src/: how an outside call
  settles after the events so far, what \<open>isClosed\<close> answers, the helpers of belter,
  post-robot and cross-domain-utils that the modelled methods consult, the component
  definition and the driver. A window is a number; \<open>window_origin\<close> gives its origin.
  \<open>uniqueID\<close> is any sequence of identifiers, read by the number of calls so far.\<close>

record env =
  outcome :: "event list \<Rightarrow> event \<Rightarrow> unit promise"
  closed_result :: "event list \<Rightarrow> nat \<Rightarrow> bool promise"
  stringifyError :: "error \<Rightarrow> string"
  uniqueID :: "nat \<Rightarrow> string"
  serializeMessage :: "nat \<Rightarrow> string \<Rightarrow> message \<Rightarrow> string"
  this_window :: nat
  window_origin :: "nat \<Rightarrow> string"
  isTop :: bool
  getDistanceFromTop :: nat
  isSameTopWindow :: "nat \<Rightarrow> nat \<Rightarrow> bool"
  component_domain :: "string option"
  component_tag :: string
  matchDomain :: "string \<Rightarrow> string \<Rightarrow> bool"
  containerTemplate :: "(render_options \<Rightarrow> string \<times> string list) option"
  renderedIntoContainer :: bool
  getElement :: "element_ref \<Rightarrow> nat option"
  document_body :: "nat option"
  CLASS_OUTLET :: string
  EVENT_CLOSE :: string

text \<open>\<open>getDomain()\<close> and \<open>isSameDomain(win)\<close> of cross-domain-utils: the origin of this
  window, and whether a window has it.\<close>

definition origin :: "env \<Rightarrow> string" where
  "origin E = window_origin E (this_window E)"

definition isSameDomain :: "env \<Rightarrow> nat \<Rightarrow> bool" where
  "isSameDomain E w = (window_origin E w = origin E)"

subsection \<open>Promises and outside calls\<close>

fun then_p :: "'a promise \<times> 's \<Rightarrow> ('a \<Rightarrow> 's \<Rightarrow> 'b promise \<times> 's) \<Rightarrow> 'b promise \<times> 's" where
  "then_p (Resolved v, s) f = f v s"
| "then_p (Rejected e, s) f = (Rejected e, s)"
| "then_p (Pending, s) f = (Pending, s)"

fun catch_p :: "'a promise \<times> 's \<Rightarrow> (error \<Rightarrow> 's \<Rightarrow> 'a promise \<times> 's) \<Rightarrow> 'a promise \<times> 's" where
  "catch_p (Resolved v, s) h = (Resolved v, s)"
| "catch_p (Rejected e, s) h = h e s"
| "catch_p (Pending, s) h = (Pending, s)"

text \<open>\<open>ZalgoPromise.all([p, q])\<close> of two promises that both exist already: the first
  rejection in the order of the array wins, otherwise it waits for both.\<close>

fun all_p :: "'a promise \<Rightarrow> 'b promise \<Rightarrow> unit promise" where
  "all_p (Rejected e) q = Rejected e"
| "all_p p (Rejected e) = Rejected e"
| "all_p (Resolved v) (Resolved w) = Resolved ()"
| "all_p p q = Pending"

definition emit :: "event \<Rightarrow> state \<Rightarrow> state" where
  "emit e s = s\<lparr>trace := trace s @ [e]\<rparr>"

text \<open>A call whose result is returned into the promise chain.\<close>

definition call :: "env \<Rightarrow> event \<Rightarrow> state \<Rightarrow> unit promise \<times> state" where
  "call E e s = (outcome E (trace s) e, emit e s)"

text \<open>A call whose result the caller drops: only a throw is seen.\<close>

definition call_sync :: "env \<Rightarrow> event \<Rightarrow> state \<Rightarrow> unit promise \<times> state" where
  "call_sync E e s =
     ((case outcome E (trace s) e of Rejected x \<Rightarrow> Rejected x | _ \<Rightarrow> Resolved ()), emit e s)"

subsection \<open>The cleanup registry\<close>

text \<open>Modelled from the spec: \<open>cleanup\<close> of ../../lib is not among the sources. The
  spec's Cleanup Registry is an ordered collection of (optional tag, action) pairs;
  \<open>run(tag)\<close> executes and removes the entries matching the tag, \<open>all()\<close> executes every
  remaining action in registration order and clears the registry, \<open>hasTasks()\<close> reports
  non-emptiness. Here \<open>register\<close> appends a pair.\<close>

definition clean_register :: "string option \<Rightarrow> cleanup_action \<Rightarrow> state \<Rightarrow> state" where
  "clean_register tg a s = s\<lparr>clean := clean s @ [(tg, a)]\<rparr>"

text \<open>Modelled from the spec: what running one registered action does. The two deletions
  are the closures of \<open>getComponentParentRef\<close> and \<open>buildChildWindowName\<close>; every action
  leaves its mark in the trace.\<close>

fun run_action :: "cleanup_action \<Rightarrow> state \<Rightarrow> state" where
  "run_action (DeleteGlobalWindows uid) s =
     emit (Cleaned (DeleteGlobalWindows uid)) (s\<lparr>global_windows := (global_windows s)(uid := None)\<rparr>)"
| "run_action (DeleteGlobalProps uid) s =
     emit (Cleaned (DeleteGlobalProps uid)) (s\<lparr>global_props := (global_props s)(uid := None)\<rparr>)"
| "run_action (Closure l) s = emit (Cleaned (Closure l)) s"

fun run_actions :: "cleanup_action list \<Rightarrow> state \<Rightarrow> state" where
  "run_actions [] s = s"
| "run_actions (a # as) s = run_actions as (run_action a s)"

text \<open>Modelled from the spec: \<open>clean.hasTasks()\<close>.\<close>

definition clean_hasTasks :: "state \<Rightarrow> bool" where
  "clean_hasTasks s = (clean s \<noteq> [])"

text \<open>Modelled from the spec: \<open>clean.run(tag)\<close>.\<close>

definition clean_run :: "string \<Rightarrow> state \<Rightarrow> state" where
  "clean_run tg s =
     run_actions (map snd (filter (\<lambda>p. fst p = Some tg) (clean s)))
       (s\<lparr>clean := filter (\<lambda>p. fst p \<noteq> Some tg) (clean s)\<rparr>)"

text \<open>Modelled from the spec: \<open>clean.all()\<close>.\<close>

definition clean_all :: "state \<Rightarrow> state" where
  "clean_all s = run_actions (map snd (clean s)) (emit CleanAll (s\<lparr>clean := []\<rparr>))"

subsection \<open>destroy and error\<close>

definition destroy :: "state \<Rightarrow> unit promise \<times> state" where
  "destroy s =
     (if clean_hasTasks s then (Resolved (), clean_all (emit (Log ''destroy'') s))
      else (Resolved (), s))"

text \<open>\<open>this.onInit.reject(err)\<close>, the promise alone: one that has settled stays as it
  is.\<close>

definition reject_onInit :: "error \<Rightarrow> state \<Rightarrow> state" where
  "reject_onInit err s = (case onInit s of Pending \<Rightarrow> s\<lparr>onInit := Rejected err\<rparr> | _ \<Rightarrow> s)"

definition handling_error :: "env \<Rightarrow> error \<Rightarrow> error \<Rightarrow> error" where
  "handling_error E err errErr =
     Error (''An error was encountered while handling error:'' @ [CHR 0x0A, CHR 0x0A] @ '' ''
            @ stringifyError E err @ [CHR 0x0A, CHR 0x0A] @ stringifyError E errErr)"

text \<open>\<open>error(err, props = this.props)\<close>; the result \<open>None\<close> is the \<open>undefined\<close> of the
  early return.\<close>

definition error :: "env \<Rightarrow> error \<Rightarrow> props option \<Rightarrow> state \<Rightarrow> unit promise option \<times> state" where
  "error E err pr s =
     (if errored s then (None, s)
      else
        let p = (case pr of None \<Rightarrow> props_of s | Some q \<Rightarrow> q);
            r1 = destroy (reject_onInit err (s\<lparr>errored := True\<rparr>));
            r2 = then_p r1 (\<lambda>_ t. case onError p of
                                     Some h \<Rightarrow> call E (OnError h err) t
                                   | None \<Rightarrow> (Resolved (), t));
            r3 = catch_p r2 (\<lambda>errErr t. (Rejected (handling_error E err errErr), t));
            r4 = then_p r3 (\<lambda>_ t. if onError p = None then (Rejected err, t) else (Resolved (), t))
        in (Some (fst r4), snd r4))"

text \<open>The constructor returns \<open>this.onInit\<close> from its \<open>ZalgoPromise.try\<close> and chains
  \<open>.catch(err => this.error(err, props))\<close> on it, with the props it was given: when the
  pending ready signal is rejected, that handler runs \<open>error\<close>. So this is what
  \<open>this.onInit.reject(err)\<close> does when a method other than \<open>error\<close> calls it. Inside
  \<open>error\<close> the flag is set before the rejection, the handler's call of \<open>error\<close> returns
  at once, and \<open>reject_onInit\<close> is all that happens.\<close>

definition onInit_reject :: "env \<Rightarrow> error \<Rightarrow> state \<Rightarrow> state" where
  "onInit_reject E err s =
     (case onInit s of
        Pending \<Rightarrow> snd (error E err (Some (ctor_props s)) (s\<lparr>onInit := Rejected err\<rparr>))
      | _ \<Rightarrow> s)"

subsection \<open>Memoized methods and the event emitter\<close>

text \<open>The decorator \<open>@memoized\<close> of belter (not under src/) caches per instance, per
  method and per argument list: the key of a call is the method's name with the
  arguments the caller passed (before any default is filled in), so \<open>closeComponent()\<close>
  and \<open>closeComponent(reason)\<close> are two entries. The first call with a key stores what
  the method returned, once the method has returned; a later call with the same key
  returns the stored value and does not run the method. The stored value of a
  promise-returning method is the promise itself, so every caller with that key holds
  the same promise.\<close>

definition memoized ::
  "string \<Rightarrow> close_reason option \<Rightarrow> (state \<Rightarrow> unit promise \<times> state) \<Rightarrow> state \<Rightarrow>
     unit promise \<times> state" where
  "memoized name args method s =
     (case memoized_tbl s (name, args) of
        Some p \<Rightarrow> (p, s)
      | None \<Rightarrow>
          (let r = method s
           in (fst r, (snd r)\<lparr>memoized_tbl := (memoized_tbl (snd r))((name, args) \<mapsto> fst r)\<rparr>)))"

text \<open>\<open>this.event.triggerOnce(name)\<close> of belter's event emitter: the handlers of an
  event run the first time only; a handler may throw.\<close>

definition triggerOnce :: "env \<Rightarrow> string \<Rightarrow> state \<Rightarrow> unit promise \<times> state" where
  "triggerOnce E name s =
     (if name \<in> set (triggered s) then (Resolved (), s)
      else call_sync E (TriggerEvent name) (s\<lparr>triggered := name # triggered s\<rparr>))"

subsection \<open>Hiding, closing\<close>

text \<open>\<open>animateAndHide\<close> is given \<open>this.clean.register\<close>; what it registers there is its
  own business and is not modelled.\<close>

definition hideContainer :: "env \<Rightarrow> state \<Rightarrow> unit promise \<times> state" where
  "hideContainer E =
     memoized ''hideContainer'' None
       (\<lambda>s. case container s of
               Some c \<Rightarrow> call E (AnimateAndHide c HIDE_CONTAINER) s
             | None \<Rightarrow> (Resolved (), s))"

definition hideComponent :: "env \<Rightarrow> state \<Rightarrow> unit promise \<times> state" where
  "hideComponent E =
     memoized ''hideComponent'' None
       (\<lambda>s. case element s of
               Some el \<Rightarrow> call E (AnimateAndHide el HIDE_COMPONENT) s
             | None \<Rightarrow> (Resolved (), s))"

definition cancelContainerEvents :: "state \<Rightarrow> state" where
  "cancelContainerEvents s = clean_run ''destroyContainerEvents'' s"

definition destroyComponent :: "state \<Rightarrow> state" where
  "destroyComponent s =
     clean_run ''destroyWindow''
       (clean_run ''destroyContainerEvents''
         (clean_run ''destroyCloseWindowListener''
           (clean_run ''destroyUnloadWindowListener'' s)))"

definition destroyContainer :: "state \<Rightarrow> unit promise \<times> state" where
  "destroyContainer =
     memoized ''destroyContainer'' None
       (\<lambda>s. (Resolved (),
              clean_run ''destroyContainerTemplate'' (clean_run ''destroyContainerEvents'' s)))"

text \<open>The reason of the three closing methods is optional: \<open>None\<close> is a call without
  the argument, which takes the default \<open>CLOSE_REASONS.PARENT_CALL\<close>; the argument as
  passed is the key of the cache. \<open>close\<close> calls \<open>closeComponent()\<close> and
  \<open>closeContainer()\<close> without an argument, \<open>closeContainer\<close> calls
  \<open>closeComponent(reason)\<close> with its own reason.\<close>

definition closeComponent :: "env \<Rightarrow> close_reason option \<Rightarrow> state \<Rightarrow> unit promise \<times> state" where
  "closeComponent E reason_arg =
     memoized ''closeComponent'' reason_arg
       (\<lambda>s. let reason = (case reason_arg of None \<Rightarrow> PARENT_CALL | Some r \<Rightarrow> r);
                 r1 = (Resolved (), cancelContainerEvents s);
                 r2 = then_p r1 (\<lambda>_ t. then_p (triggerOnce E (EVENT_CLOSE E) t)
                                          (\<lambda>_. call E (OnClose reason)));
                 r3 = then_p r2 (\<lambda>_. hideComponent E);
                 r4 = then_p r3 (\<lambda>_ t. (Resolved (), destroyComponent t))
             in then_p r4 (\<lambda>_ t. if childExports t \<and> ctx t = POPUP
                                   then (Resolved (), emit ChildClose t)
                                   else (Resolved (), t)))"

definition closeContainer :: "env \<Rightarrow> close_reason option \<Rightarrow> state \<Rightarrow> unit promise \<times> state" where
  "closeContainer E reason_arg =
     memoized ''closeContainer'' reason_arg
       (\<lambda>s. let reason = (case reason_arg of None \<Rightarrow> PARENT_CALL | Some r \<Rightarrow> r);
                 r1 = then_p (triggerOnce E (EVENT_CLOSE E) s) (\<lambda>_. call E (OnClose reason));
                 r2 = then_p r1 (\<lambda>_ t. let a = closeComponent E (Some reason) t;
                                            b = hideContainer E (snd a)
                                        in (all_p (fst a) (fst b), snd b))
             in then_p r2 (\<lambda>_. destroyContainer))"

definition close :: "env \<Rightarrow> close_reason option \<Rightarrow> state \<Rightarrow> unit promise \<times> state" where
  "close E reason_arg =
     memoized ''close'' reason_arg
       (\<lambda>s. let reason = (case reason_arg of None \<Rightarrow> PARENT_CALL | Some r \<Rightarrow> r);
                 r1 = then_p (triggerOnce E (EVENT_CLOSE E) (emit (Log ''close'') s))
                        (\<lambda>_. call E (OnClose reason));
                 r2 = then_p r1 (\<lambda>_ t. let a = closeComponent E None t;
                                            b = closeContainer E None (snd a)
                                        in (all_p (fst a) (fst b), snd b))
             in then_p r2 (\<lambda>_. destroy))"

definition userClose :: "env \<Rightarrow> state \<Rightarrow> unit promise \<times> state" where
  "userClose E s = close E (Some USER_CLOSED) s"

text \<open>\<open>win.isClosed()\<close> of the proxy window.\<close>

definition isClosed :: "env \<Rightarrow> nat \<Rightarrow> state \<Rightarrow> bool promise \<times> state" where
  "isClosed E win s = (closed_result E (trace s) win, emit (IsClosed win) s)"

definition checkClose :: "env \<Rightarrow> nat \<Rightarrow> state \<Rightarrow> unit promise \<times> state" where
  "checkClose E win s =
     then_p (isClosed E win s)
       (\<lambda>closed t.
          if closed then userClose E t
          else then_p (then_p (call E (Delay 200) t) (\<lambda>_. isClosed E win))
                 (\<lambda>secondClosed u. if secondClosed then userClose E u else (Resolved (), u)))"

subsection \<open>resize\<close>

text \<open>\<open>setOverflow(el, value)\<close> of belter remembers the overflow style of the element,
  sets the new one and returns an object whose \<open>reset\<close> puts the remembered one back.
  \<open>None\<close> for \<open>waitForTransition\<close> is a call without the option, which defaults to
  true.\<close>

definition resize ::
  "env \<Rightarrow> dimension option \<Rightarrow> dimension option \<Rightarrow> bool option \<Rightarrow> state \<Rightarrow> unit promise \<times> state" where
  "resize E width height wait_arg s =
     (let waitForTransition = (case wait_arg of None \<Rightarrow> True | Some b \<Rightarrow> b)
      in then_p (call_sync E (DriverResize width height) (emit (Log ''resize'') s))
           (\<lambda>_ t.
              if \<not> waitForTransition then (Resolved (), t)
              else
                (case element t of
                   None \<Rightarrow> (Resolved (), t)
                 | Some el \<Rightarrow>
                     (let old = overflow_style t el;
                          t1 = emit (SetOverflow el ''hidden'')
                                 (t\<lparr>overflow_style := (overflow_style t)(el := ''hidden'')\<rparr>)
                      in then_p (call E (ElementStoppedMoving el) t1)
                           (\<lambda>_ u. (Resolved (),
                                   emit (ResetOverflow el old)
                                     (u\<lparr>overflow_style := (overflow_style u)(el := old)\<rparr>)))))))"

subsection \<open>The outlet and the container\<close>





subsection \<open>The name of the child window\<close>

definition next_uniqueID :: "env \<Rightarrow> state \<Rightarrow> string \<times> state" where
  "next_uniqueID E s = (uniqueID E (uid_calls s), s\<lparr>uid_calls := Suc (uid_calls s)\<rparr>)"

definition getComponentParentRef :: "env \<Rightarrow> nat \<Rightarrow> state \<Rightarrow> window_reference \<times> state" where
  "getComponentParentRef E renderToWindow s =
     (if ctx s = POPUP then (OPENER, s)
      else if renderToWindow = this_window E then
        (if isTop E then (TOP, s) else (PARENT (getDistanceFromTop E), s))
      else
        (let (uid, s1) = next_uniqueID E s;
             s2 = s1\<lparr>global_windows := (global_windows s1)(uid \<mapsto> this_window E)\<rparr>
         in (GLOBAL uid, clean_register None (DeleteGlobalWindows uid) s2)))"

text \<open>What \<open>buildChildWindowName\<close> of ../window is given; how that function encodes it
  into a string is not under src/, so the payload itself is the result here.\<close>

record child_payload =
  payload_id :: string
  payload_context :: context_type
  payload_domain :: string
  payload_uid :: string
  payload_tag :: string
  componentParent :: window_reference
  payload_props :: initial_props
  payload_exports :: string

definition buildChildWindowName ::
  "env \<Rightarrow> nat \<Rightarrow> string \<Rightarrow> nat option \<Rightarrow> state \<Rightarrow> child_payload \<times> state" where
  "buildChildWindowName E proxyWin domain target_arg s =
     (let target = (case target_arg of None \<Rightarrow> this_window E | Some w \<Rightarrow> w);
          (uid, s1) = next_uniqueID E s;
          sProps = serializeMessage E proxyWin domain PropsForChild;
          (parent_ref, s2) = getComponentParentRef E target s1;
          ps = (if isSameDomain E target then RAW sProps else UID uid);
          s3 = (case ps of
                  UID u \<Rightarrow> clean_register None (DeleteGlobalProps uid)
                             (s2\<lparr>global_props := (global_props s2)(uid \<mapsto> sProps)\<rparr>)
                | RAW v \<Rightarrow> s2);
          exports = serializeMessage E proxyWin domain (ParentExports proxyWin);
          (ident, s4) = next_uniqueID E s3
      in (\<lparr>payload_id = ident, payload_context = ctx s, payload_domain = origin E,
           payload_uid = uid, payload_tag = component_tag E, componentParent = parent_ref,
           payload_props = ps, payload_exports = exports\<rparr>, s4))"

subsection \<open>renderTo\<close>

text \<open>\<open>component.getDomain(null, this.props.env)\<close> is \<open>component_domain\<close>; the empty
  string is falsy like \<open>null\<close>.\<close>

definition checkAllowRemoteRender :: "env \<Rightarrow> nat option \<Rightarrow> error + unit" where
  "checkAllowRemoteRender E target =
     (case target of
        None \<Rightarrow> Inl (ComponentError ''Must pass window to renderTo'')
      | Some w \<Rightarrow>
          if \<not> isSameTopWindow E (this_window E) w then
            Inl (Error ''Can only renderTo an adjacent frame'')
          else if isSameDomain E w then Inr ()
          else
            (case component_domain E of
               None \<Rightarrow> Inl (Error ''Could not determine domain to allow remote render'')
             | Some domain \<Rightarrow>
                 if domain = [] then
                   Inl (Error ''Could not determine domain to allow remote render'')
                 else if matchDomain E domain (origin E) then Inr ()
                 else Inl (Error (''Can not render remotely to '' @ domain
                                  @ '' - can only render to '' @ origin E))))"

definition tryInit ::
  "env \<Rightarrow> (state \<Rightarrow> unit promise \<times> state) \<Rightarrow> state \<Rightarrow> unit promise \<times> state" where
  "tryInit E method s =
     then_p (catch_p (method s) (\<lambda>err t. (Resolved (), onInit_reject E err t)))
       (\<lambda>_ t. (onInit t, t))"

text \<open>\<open>this.render\<close> and \<open>this.delegate\<close> are parameters of \<open>renderTo\<close>: the model of
  \<open>render\<close> is the task graph below, and \<open>delegate\<close> is a message to the target. Every
  window this file opens is opened by a task of \<open>render\<close>.\<close>

definition renderTo ::
  "env \<Rightarrow> (element_ref option \<Rightarrow> nat option \<Rightarrow> state \<Rightarrow> unit promise \<times> state) \<Rightarrow>
   (nat option \<Rightarrow> state \<Rightarrow> state) \<Rightarrow> nat option \<Rightarrow> element_ref option \<Rightarrow> state \<Rightarrow>
   unit promise \<times> state" where
  "renderTo E render delegate target element_arg =
     tryInit E
       (\<lambda>s. if target = Some (this_window E) then render element_arg None s
            else
              (case element_arg of
                 Some (NotString ty printed) \<Rightarrow>
                   (Rejected (Error (''Element passed to renderTo must be a string selector, got ''
                                     @ ty @ '' '' @ printed)), s)
               | _ \<Rightarrow>
                   (case checkAllowRemoteRender E target of
                      Inl e \<Rightarrow> (Rejected e, s)
                    | Inr _ \<Rightarrow>
                        render element_arg target
                          (delegate target (emit (Log ''render_to_win'') s)))))"

subsection \<open>The task graph of render\<close>

text \<open>\<open>render\<close> builds one promise per task. A task made by
  \<open>ZalgoPromise.all([d1, ..., dn]).then(handler)\<close> or \<open>d.then(handler)\<close> depends on the
  listed promises; a task made by calling a method directly depends on nothing. The
  table below is read off the body of \<open>render\<close>, task by task; its argument is
  \<open>this.driver.renderedIntoContainer\<close>. \<open>ReadySignal\<close> is \<open>this.onInit\<close>.\<close>

datatype task =
    OnRender | GetDomain | ElementReady | OpenContainer | Open | AwaitWindow | ShowContainer
  | SetWindowName | WatchForClose | Prerender | ShowComponent | OpenBridge | BuildUrl
  | LoadUrl | SwitchPrerender | RunTimeout

datatype dependency = Task task | ReadySignal

fun dependencies :: "bool \<Rightarrow> task \<Rightarrow> dependency list" where
  "dependencies r OnRender = []"
| "dependencies r GetDomain = []"
| "dependencies r ElementReady = []"
| "dependencies r OpenContainer = [Task ElementReady]"
| "dependencies r Open = (if r then [Task OpenContainer] else [])"
| "dependencies r AwaitWindow = [Task Open]"
| "dependencies r ShowContainer = [Task OpenContainer]"
| "dependencies r SetWindowName = [Task Open, Task GetDomain]"
| "dependencies r WatchForClose = [Task AwaitWindow, Task SetWindowName]"
| "dependencies r Prerender = [Task Open, Task OpenContainer]"
| "dependencies r ShowComponent = [Task Prerender]"
| "dependencies r OpenBridge = [Task AwaitWindow, Task GetDomain, Task SetWindowName]"
| "dependencies r BuildUrl = []"
| "dependencies r LoadUrl = [Task Open, Task BuildUrl, Task SetWindowName]"
| "dependencies r SwitchPrerender = [Task Prerender, ReadySignal]"
| "dependencies r RunTimeout = [Task LoadUrl]"

text \<open>How the promises of one render evolve, in any order the event loop may take. The
  handler of a task begins only when every promise it depends on has resolved (the
  semantics of \<open>then\<close> and \<open>all\<close>); it is skipped, and the task rejected, when one of
  them has rejected; a task whose handler runs settles later, either way. The ready
  signal is settled from outside the graph (\<open>initChild\<close>, \<open>error\<close>, \<open>tryInit\<close>).\<close>

datatype status = Waiting | Running | Done | Failed

datatype graph_event = Begin task | Settle dependency bool | Skip task

fun step :: "bool \<Rightarrow> graph_event \<Rightarrow> (dependency \<Rightarrow> status) \<Rightarrow> (dependency \<Rightarrow> status) option" where
  "step r (Begin t) g =
     (if g (Task t) = Waiting \<and> list_all (\<lambda>d. g d = Done) (dependencies r t)
      then Some (g(Task t := Running)) else None)"
| "step r (Settle d ok) g =
     (if g d = Running then Some (g(d := (if ok then Done else Failed))) else None)"
| "step r (Skip t) g =
     (if g (Task t) = Waiting \<and> list_ex (\<lambda>d. g d = Failed) (dependencies r t)
      then Some (g(Task t := Failed)) else None)"

fun run_events ::
  "bool \<Rightarrow> graph_event list \<Rightarrow> (dependency \<Rightarrow> status) \<Rightarrow> (dependency \<Rightarrow> status) option" where
  "run_events r [] g = Some g"
| "run_events r (e # es) g = (case step r e g of None \<Rightarrow> None | Some g' \<Rightarrow> run_events r es g')"

text \<open>The graph when \<open>render\<close> is entered: no task has begun; the ready signal is in
  the state the instance has it.\<close>

definition render_start :: "status \<Rightarrow> dependency \<Rightarrow> status" where
  "render_start ready d = (case d of Task t \<Rightarrow> Waiting | ReadySignal \<Rightarrow> ready)"

subsection \<open>Auxiliary notions for the statements\<close>

text \<open>The state \<open>destroy\<close> leaves, and what a list of cleanup actions does to the two
  global registries.\<close>

definition after_destroy :: "state \<Rightarrow> state" where
  "after_destroy s = snd (destroy s)"

fun props_after :: "cleanup_action list \<Rightarrow> (string \<rightharpoonup> string) \<Rightarrow> (string \<rightharpoonup> string)" where
  "props_after [] m = m"
| "props_after (DeleteGlobalProps uid # as) m = props_after as (m(uid := None))"
| "props_after (a # as) m = props_after as m"

fun windows_after :: "cleanup_action list \<Rightarrow> (string \<rightharpoonup> nat) \<Rightarrow> (string \<rightharpoonup> nat)" where
  "windows_after [] m = m"
| "windows_after (DeleteGlobalWindows uid # as) m = windows_after as (m(uid := None))"
| "windows_after (a # as) m = windows_after as m"


fun onClose_reasons :: "event list \<Rightarrow> close_reason list" where
  "onClose_reasons [] = []"
| "onClose_reasons (OnClose r # es) = r # onClose_reasons es"
| "onClose_reasons (e # es) = onClose_reasons es"

text \<open>An instance as the constructor leaves it (an iframe, no \<open>onError\<close>, the two
  registrations of \<open>registerActiveComponent\<close> and \<open>watchForUnload\<close>), and collaborators
  that all answer at once and without failure. The instance lives in window 0, the page
  of the component's own domain, whose body is node 0; window 1 is a page of the
  host.\<close>

definition fresh_instance :: state where
  "fresh_instance =
     \<lparr>ctx = IFRAME, props_of = \<lparr>onError = None\<rparr>, ctor_props = \<lparr>onError = None\<rparr>,
      errored = False, onInit = Pending,
      memoized_tbl = Map.empty, outlet_memo = None,
      clean = [(None, Closure ''activeComponents''),
               (Some ''destroyUnloadWindowListener'', Closure ''unloadWindowListener.cancel'')],
      container = None, element = None, childExports = False, triggered = [], trace = [],
      global_props = Map.empty, global_windows = Map.empty, uid_calls = 0,
      dom_nodes = [(''body'', [])],
      overflow_style = (\<lambda>_. ''auto'')\<rparr>"

definition env_resolving :: env where
  "env_resolving =
     \<lparr>outcome = (\<lambda>_ _. Resolved ()), closed_result = (\<lambda>_ _. Resolved False),
      stringifyError = (\<lambda>e. case e of Error m \<Rightarrow> m | ComponentError m \<Rightarrow> m),
      uniqueID = (\<lambda>n. ''uid'' @ replicate n CHR ''x''),
      serializeMessage = (\<lambda>_ d m. case m of PropsForChild \<Rightarrow> ''props'' | ParentExports _ \<Rightarrow> ''exports''),
      this_window = 0,
      window_origin = (\<lambda>w. if w = 0 then ''https://component.example'' else ''https://host.example''),
      isTop = True, getDistanceFromTop = 0,
      isSameTopWindow = (\<lambda>_ _. True),
      component_domain = Some ''https://component.example'',
      component_tag = ''my-component'',
      matchDomain = (\<lambda>d e. d = e),
      containerTemplate = Some (\<lambda>options. (''div'', [''container''])),
      renderedIntoContainer = True,
      getElement = (\<lambda>_. Some 0), document_body = Some 0,
      CLASS_OUTLET = ''zoid-outlet'', EVENT_CLOSE = ''zoid-close''\<rparr>"

text \<open>Collaborators whose \<open>onError\<close> callback throws.\<close>

definition env_onError_throws :: env where
  "env_onError_throws =
     env_resolving\<lparr>outcome := (\<lambda>_ e. case e of OnError h x \<Rightarrow> Rejected (Error ''handler failed'')
                                        | _ \<Rightarrow> Resolved ())\<rparr>"

text \<open>A proxy window that reports closed on the second poll only, and one that reports
  closed at once.\<close>

definition env_closed_later :: env where
  "env_closed_later = env_resolving\<lparr>closed_result := (\<lambda>tr w. Resolved (IsClosed w \<in> set tr))\<rparr>"

definition env_closed_at_once :: env where
  "env_closed_at_once = env_resolving\<lparr>closed_result := (\<lambda>tr w. Resolved True)\<rparr>"

text \<open>An instance with an element (node 2), and collaborators whose element has not
  stopped moving.\<close>

definition instance_with_element :: state where
  "instance_with_element =
     fresh_instance\<lparr>element := Some 2,
                    dom_nodes := [(''body'', []), (''div'', [''container'']), (''div'', [''zoid-outlet''])]\<rparr>"

definition env_still_moving :: env where
  "env_still_moving =
     env_resolving\<lparr>outcome := (\<lambda>_ e. case e of ElementStoppedMoving el \<Rightarrow> Pending
                                        | _ \<Rightarrow> Resolved ())\<rparr>"

text \<open>Stand-ins for \<open>this.render\<close> and \<open>this.delegate\<close> that leave a mark in the trace,
  a component of another domain, and a target in another top-level window.\<close>

definition render_stub :: "element_ref option \<Rightarrow> nat option \<Rightarrow> state \<Rightarrow> unit promise \<times> state" where
  "render_stub el target s = (Pending, emit (Log ''render'') s)"

definition delegate_stub :: "nat option \<Rightarrow> state \<Rightarrow> state" where
  "delegate_stub target s = emit (Log ''delegate'') s"

definition env_foreign_component :: env where
  "env_foreign_component = env_resolving\<lparr>component_domain := Some ''https://other.example''\<rparr>"

definition env_other_top :: env where
  "env_other_top = env_resolving\<lparr>isSameTopWindow := (\<lambda>a b. a = b)\<rparr>"

text \<open>A run of the graph up to the point where both handlers can begin.\<close>

definition schedule_example :: "graph_event list" where
  "schedule_example =
     [Begin GetDomain, Begin ElementReady, Settle (Task ElementReady) True,
      Begin OpenContainer, Settle (Task OpenContainer) True, Begin Open,
      Settle (Task Open) True, Settle (Task GetDomain) True, Begin Prerender,
      Settle (Task Prerender) True, Settle ReadySignal True]"


definition quiet :: "event list \<Rightarrow> bool" where
  "quiet evs \<longleftrightarrow> onClose_reasons evs = [] \<and> count_list evs CleanAll = 0"









section \<open>Properties\<close>

subsection \<open>Primitive steps\<close>

lemma emit_fields:
  "trace (emit e s) = trace s @ [e]"
  "ctx (emit e s) = ctx s"
  "props_of (emit e s) = props_of s"
  "errored (emit e s) = errored s"
  "onInit (emit e s) = onInit s"
  "memoized_tbl (emit e s) = memoized_tbl s"
  "outlet_memo (emit e s) = outlet_memo s"
  "clean (emit e s) = clean s"
  "container (emit e s) = container s"
  "element (emit e s) = element s"
  "childExports (emit e s) = childExports s"
  "triggered (emit e s) = triggered s"
  "global_props (emit e s) = global_props s"
  "global_windows (emit e s) = global_windows s"
  "uid_calls (emit e s) = uid_calls s"
  "dom_nodes (emit e s) = dom_nodes s"
  "overflow_style (emit e s) = overflow_style s"
  by (simp_all add: emit_def)

lemma run_actions_eq:
  "run_actions as s =
     s\<lparr>trace := trace s @ map Cleaned as,
       global_props := props_after as (global_props s),
       global_windows := windows_after as (global_windows s)\<rparr>"
proof (induction as arbitrary: s)
  case Nil
  then show ?case by simp
next
  case (Cons a as)
  then show ?case by (cases a) (simp_all add: emit_def fun_upd_def)
qed

lemma clean_all_eq:
  "clean_all s =
     s\<lparr>clean := [],
       trace := trace s @ CleanAll # map Cleaned (map snd (clean s)),
       global_props := props_after (map snd (clean s)) (global_props s),
       global_windows := windows_after (map snd (clean s)) (global_windows s)\<rparr>"
  by (simp add: clean_all_def run_actions_eq emit_def)

lemma destroy_pair: "destroy s = (Resolved (), after_destroy s)"
  by (simp add: destroy_def after_destroy_def)

lemma after_destroy_eq:
  "after_destroy s =
     (if clean s = [] then s
      else s\<lparr>clean := [],
             trace := trace s @ Log ''destroy'' # CleanAll # map Cleaned (map snd (clean s)),
             global_props := props_after (map snd (clean s)) (global_props s),
             global_windows := windows_after (map snd (clean s)) (global_windows s)\<rparr>)"
  by (simp add: after_destroy_def destroy_def clean_hasTasks_def clean_all_eq emit_def)

lemma reject_onInit_fields:
  "onInit (reject_onInit err s) = (if onInit s = Pending then Rejected err else onInit s)"
  "trace (reject_onInit err s) = trace s"
  "clean (reject_onInit err s) = clean s"
  "errored (reject_onInit err s) = errored s"
  by (simp_all add: reject_onInit_def split: promise.splits)

subsection \<open>error\<close>

lemma error_not_errored:
  assumes "\<not> errored s"
  shows "error E err pr s =
     (let p = (case pr of None \<Rightarrow> props_of s | Some q \<Rightarrow> q);
          t = after_destroy (reject_onInit err (s\<lparr>errored := True\<rparr>))
      in case onError p of
           None \<Rightarrow> (Some (Rejected err), t)
         | Some h \<Rightarrow>
            (case outcome E (trace t) (OnError h err) of
               Resolved _ \<Rightarrow> (Some (Resolved ()), emit (OnError h err) t)
             | Rejected e \<Rightarrow> (Some (Rejected (handling_error E err e)), emit (OnError h err) t)
             | Pending \<Rightarrow> (Some Pending, emit (OnError h err) t)))"
  using assms
  by (simp add: error_def Let_def destroy_pair call_def split: option.splits promise.splits)

lemma errored_after_error: "errored (snd (error E err pr s))"
proof (cases "errored s")
  case True
  then show ?thesis by (simp add: error_def)
next
  case False
  then show ?thesis
    by (simp add: error_not_errored Let_def after_destroy_eq reject_onInit_fields emit_fields
        split: option.splits promise.splits)
qed

text \<open>
  C2. Once the \<open>errored\<close> flag is set, \<open>error\<close> returns at once (\<open>undefined\<close>, the state
  untouched: no event, no change of the ready signal or of the registry). The first
  call sets the flag whatever happens in its handling, so any later call, with any
  error and any props, is such a call: the host sees the handling of the first error
  only.
\<close>

theorem error_first_wins:
  "(errored s \<longrightarrow> error E e2 pr2 s = (None, s)) \<and>
   errored (snd (error E e1 pr1 s)) \<and>
   error E e2 pr2 (snd (error E e1 pr1 s)) = (None, snd (error E e1 pr1 s))"
proof -
  have "errored t \<Longrightarrow> error E e2 pr2 t = (None, t)" for t
    by (simp add: error_def)
  then show ?thesis
    using errored_after_error [of E e1 pr1 s] by blast
qed

theorem error_first_wins_witness:
  "\<not> errored fresh_instance \<and>
   errored (snd (error env_resolving (Error ''first'') None fresh_instance)) \<and>
   error env_resolving (Error ''second'') None
     (snd (error env_resolving (Error ''first'') None fresh_instance))
   = (None, snd (error env_resolving (Error ''first'') None fresh_instance)) \<and>
   trace (snd (error env_resolving (Error ''second'') None
     (snd (error env_resolving (Error ''first'') None fresh_instance))))
   = [Log ''destroy'', CleanAll, Cleaned (Closure ''activeComponents''),
      Cleaned (Closure ''unloadWindowListener.cancel'')]"
  using error_first_wins [of "snd (error env_resolving (Error ''first'') None fresh_instance)"
      env_resolving "Error ''second''" None "Error ''first''" None]
  by (simp add: fresh_instance_def error_not_errored Let_def after_destroy_eq reject_onInit_def)

text \<open>
  C5. A call of \<open>error\<close> on an instance that has not errored sets the flag, rejects the
  ready signal if it is still pending, and runs \<open>destroy\<close>: in the state \<open>t\<close> after that
  the registry is empty and the trace has grown by the teardown only, so nothing has
  been notified yet. Then: with no \<open>onError\<close> the result is rejected with the original
  error; with an \<open>onError\<close> the callback is called with the error, after the teardown,
  and the result resolves when it resolves, and is rejected, when it throws or rejects,
  with the error whose message holds the original error and the second one.
\<close>

theorem error_handling:
  assumes "\<not> errored s"
  shows
   "let p = (case pr of None \<Rightarrow> props_of s | Some q \<Rightarrow> q);
        t = after_destroy (reject_onInit err (s\<lparr>errored := True\<rparr>));
        r = error E err pr s
    in errored t \<and>
       onInit t = (if onInit s = Pending then Rejected err else onInit s) \<and>
       clean t = [] \<and>
       trace t = trace s @ (if clean s = [] then []
                            else Log ''destroy'' # CleanAll # map Cleaned (map snd (clean s))) \<and>
       (case onError p of
          None \<Rightarrow> r = (Some (Rejected err), t)
        | Some h \<Rightarrow>
            snd r = emit (OnError h err) t \<and>
            fst r = Some (case outcome E (trace t) (OnError h err) of
                            Resolved _ \<Rightarrow> Resolved ()
                          | Rejected e \<Rightarrow> Rejected (handling_error E err e)
                          | Pending \<Rightarrow> Pending))"
  using assms
  by (simp add: error_not_errored Let_def after_destroy_eq reject_onInit_fields
      split: option.splits promise.splits)

theorem error_handling_witness:
  "\<not> errored fresh_instance \<and>
   error env_onError_throws (Error ''boom'') (Some \<lparr>onError = Some 7\<rparr>) fresh_instance =
     (Some (Rejected (Error (''An error was encountered while handling error:'' @ [CHR 0x0A, CHR 0x0A]
                             @ '' boom'' @ [CHR 0x0A, CHR 0x0A] @ ''handler failed''))),
      fresh_instance\<lparr>errored := True, onInit := Rejected (Error ''boom''), clean := [],
        trace := [Log ''destroy'', CleanAll, Cleaned (Closure ''activeComponents''),
                  Cleaned (Closure ''unloadWindowListener.cancel''),
                  OnError 7 (Error ''boom'')]\<rparr>)"
  using error_handling [of fresh_instance "Some \<lparr>onError = Some 7\<rparr>" "Error ''boom''" env_onError_throws]
  by (simp add: fresh_instance_def env_onError_throws_def env_resolving_def Let_def
      after_destroy_eq reject_onInit_def emit_def handling_error_def prod_eq_iff)

subsection \<open>Memoized methods\<close>

lemma memoized_sets: "\<exists>p. memoized_tbl (snd (memoized name args m s)) (name, args) = Some p"
  by (simp add: memoized_def Let_def split: option.splits)



lemma userClose_memo:
  "\<exists>p. memoized_tbl (snd (userClose E s)) (''close'', Some USER_CLOSED) = Some p"
  by (simp add: userClose_def close_def memoized_sets)

subsection \<open>checkClose\<close>

lemma checkClose_cases:
  "checkClose E win s =
     (let s1 = emit (IsClosed win) s;
          s2 = emit (Delay 200) s1;
          s3 = emit (IsClosed win) s2
      in case closed_result E (trace s) win of
           Resolved True \<Rightarrow> userClose E s1
         | Resolved False \<Rightarrow>
             (case outcome E (trace s1) (Delay 200) of
                Resolved _ \<Rightarrow>
                  (case closed_result E (trace s2) win of
                     Resolved True \<Rightarrow> userClose E s3
                   | Resolved False \<Rightarrow> (Resolved (), s3)
                   | Rejected e \<Rightarrow> (Rejected e, s3)
                   | Pending \<Rightarrow> (Pending, s3))
              | Rejected e \<Rightarrow> (Rejected e, s2)
              | Pending \<Rightarrow> (Pending, s2))
         | Rejected e \<Rightarrow> (Rejected e, s1)
         | Pending \<Rightarrow> (Pending, s1))"
  by (simp add: checkClose_def isClosed_def call_def Let_def split: promise.splits bool.splits)

text \<open>
  C3, as the code has it. \<open>checkClose\<close> polls \<open>isClosed\<close> at once. If that poll reports
  closed, the user-close is triggered there and then, with no second poll. If it
  reports not closed, \<open>checkClose\<close> waits the 200ms and polls once more, and the
  user-close is triggered if this second poll reports closed. So, on an instance whose
  \<open>close\<close> has not been called with the reason \<open>USER_CLOSED\<close>, it is called so by
  \<open>checkClose\<close> exactly when the first poll reports closed, or the first reports not
  closed and the second, after the delay, reports closed; while the delay is pending
  there is no second poll and no close.
\<close>

theorem checkClose_user_close:
  "let first = closed_result E (trace s) win;
       waited = outcome E (trace s @ [IsClosed win]) (Delay 200);
       second = closed_result E (trace s @ [IsClosed win, Delay 200]) win;
       s1 = emit (IsClosed win) s;
       s3 = emit (IsClosed win) (emit (Delay 200) s1)
   in (memoized_tbl s (''close'', Some USER_CLOSED) = None \<longrightarrow>
         (memoized_tbl (snd (checkClose E win s)) (''close'', Some USER_CLOSED) \<noteq> None \<longleftrightarrow>
            first = Resolved True \<or>
            (first = Resolved False \<and> waited = Resolved () \<and> second = Resolved True))) \<and>
      (first = Resolved True \<longrightarrow> checkClose E win s = userClose E s1) \<and>
      (first = Resolved False \<and> waited = Resolved () \<and> second = Resolved True \<longrightarrow>
         checkClose E win s = userClose E s3) \<and>
      (first = Resolved False \<and> waited = Resolved () \<and> second = Resolved False \<longrightarrow>
         checkClose E win s = (Resolved (), s3)) \<and>
      (first = Resolved False \<and> waited = Pending \<longrightarrow>
         checkClose E win s = (Pending, emit (Delay 200) s1))"
  using userClose_memo [of E "emit (IsClosed win) s"]
    userClose_memo [of E "emit (IsClosed win) (emit (Delay 200) (emit (IsClosed win) s))"]
  by (auto simp add: checkClose_cases Let_def emit_fields split: promise.splits bool.splits)

theorem checkClose_user_close_witness:
  "memoized_tbl fresh_instance (''close'', Some USER_CLOSED) = None \<and>
   closed_result env_closed_at_once (trace fresh_instance) 1 = Resolved True \<and>
   checkClose env_closed_at_once 1 fresh_instance =
     userClose env_closed_at_once (emit (IsClosed 1) fresh_instance) \<and>
   memoized_tbl (snd (checkClose env_closed_at_once 1 fresh_instance))
     (''close'', Some USER_CLOSED) \<noteq> None"
proof -
  have h: "memoized_tbl fresh_instance (''close'', Some USER_CLOSED) = None"
    by (simp add: fresh_instance_def)
  have c: "closed_result env_closed_at_once (trace fresh_instance) 1 = Resolved True"
    by (simp add: env_closed_at_once_def)
  from checkClose_user_close [of env_closed_at_once fresh_instance 1] c h show ?thesis
    by (auto simp add: Let_def)
qed

text \<open>
  Against C3 as stated (a user-close only when both checks report closed): with a
  window whose first poll reports not closed and whose second reports closed,
  \<open>checkClose\<close> closes with \<open>USER_CLOSED\<close>; with a window whose first poll reports closed
  it closes after that single poll.
\<close>

theorem checkClose_counterexample:
  "closed_result env_closed_later (trace fresh_instance) 1 = Resolved False \<and>
   trace (snd (checkClose env_closed_later 1 fresh_instance)) =
     [IsClosed 1, Delay 200, IsClosed 1, Log ''close'', TriggerEvent ''zoid-close'',
      OnClose USER_CLOSED, OnClose PARENT_CALL,
      Cleaned (Closure ''unloadWindowListener.cancel''), OnClose PARENT_CALL,
      OnClose PARENT_CALL,
      Log ''destroy'', CleanAll, Cleaned (Closure ''activeComponents'')] \<and>
   trace (snd (checkClose env_closed_at_once 1 fresh_instance)) =
     [IsClosed 1, Log ''close'', TriggerEvent ''zoid-close'',
      OnClose USER_CLOSED, OnClose PARENT_CALL,
      Cleaned (Closure ''unloadWindowListener.cancel''), OnClose PARENT_CALL,
      OnClose PARENT_CALL,
      Log ''destroy'', CleanAll, Cleaned (Closure ''activeComponents'')]"
  by code_simp

subsection \<open>Promise chains\<close>

lemma then_p_alt:
  "then_p r f =
     (case fst r of Resolved v \<Rightarrow> f v (snd r) | Rejected e \<Rightarrow> (Rejected e, snd r)
      | Pending \<Rightarrow> (Pending, snd r))"
  by (cases r; cases "fst r") auto

lemma catch_p_alt:
  "catch_p r h =
     (case fst r of Resolved v \<Rightarrow> (Resolved v, snd r) | Rejected e \<Rightarrow> h e (snd r)
      | Pending \<Rightarrow> (Pending, snd r))"
  by (cases r; cases "fst r") auto

subsection \<open>resize\<close>

text \<open>
  C8. \<open>resize\<close> logs and calls the driver. With \<open>waitForTransition: false\<close> that is all:
  the result is never pending and no stopped-moving signal is asked for. Otherwise
  (\<open>true\<close>, or the option left out), and with an element, the overflow of the element is
  set to hidden, the stopped-moving signal is awaited, and the result is the state of
  that signal: pending while it is pending, with the overflow still hidden, resolved
  once it has fired, with the overflow put back. (\<open>thrown\<close>: the driver's \<open>resize\<close>
  threw, which rejects the result before any of this.)
\<close>

theorem resize_waits:
  "let s1 = emit (DriverResize w h) (emit (Log ''resize'') s);
       thrown = (\<exists>e. outcome E (trace s @ [Log ''resize'']) (DriverResize w h) = Rejected e);
       r0 = resize E w h (Some False) s;
       r1 = resize E w h wait s
   in (\<not> thrown \<longrightarrow> r0 = (Resolved (), s1)) \<and>
      snd r0 = s1 \<and> fst r0 \<noteq> Pending \<and>
      (\<not> thrown \<and> wait \<noteq> Some False \<longrightarrow>
         (case element s of
            None \<Rightarrow> r1 = (Resolved (), s1)
          | Some el \<Rightarrow>
              (let s2 = emit (SetOverflow el ''hidden'')
                          (s1\<lparr>overflow_style := (overflow_style s)(el := ''hidden'')\<rparr>);
                   signal = outcome E (trace s2) (ElementStoppedMoving el);
                   s3 = emit (ElementStoppedMoving el) s2
               in fst r1 = signal \<and>
                  snd r1 = (if signal = Resolved ()
                            then emit (ResetOverflow el (overflow_style s el))
                                   (s3\<lparr>overflow_style := overflow_style s\<rparr>)
                            else s3))))"
  by (auto simp add: resize_def Let_def call_sync_def call_def emit_def then_p_alt
      split: option.splits promise.splits)

theorem resize_waits_witness:
  "resize env_resolving (Some (Num 300)) (Some (Num 200)) (Some False) instance_with_element =
     (Resolved (),
      instance_with_element\<lparr>trace := [Log ''resize'', DriverResize (Some (Num 300)) (Some (Num 200))]\<rparr>) \<and>
   fst (resize env_still_moving (Some (Num 300)) (Some (Num 200)) (Some True) instance_with_element)
     = Pending \<and>
   overflow_style
     (snd (resize env_still_moving (Some (Num 300)) (Some (Num 200)) (Some True) instance_with_element)) 2
     = ''hidden'' \<and>
   resize env_resolving (Some (Num 300)) (Some (Num 200)) None instance_with_element =
     (Resolved (),
      instance_with_element\<lparr>trace :=
        [Log ''resize'', DriverResize (Some (Num 300)) (Some (Num 200)), SetOverflow 2 ''hidden'',
         ElementStoppedMoving 2, ResetOverflow 2 ''auto'']\<rparr>)"
  using resize_waits [of "Some (Num 300)" "Some (Num 200)" instance_with_element env_resolving None]
    resize_waits [of "Some (Num 300)" "Some (Num 200)" instance_with_element env_still_moving "Some True"]
  by (simp add: Let_def instance_with_element_def fresh_instance_def env_resolving_def
      env_still_moving_def emit_def prod_eq_iff)

subsection \<open>getOutlet\<close>



subsection \<open>renderTo\<close>

lemma error_keeps_onInit:
  assumes "onInit s \<noteq> Pending"
  shows "onInit (snd (error E err pr s)) = onInit s"
proof (cases "errored s")
  case True
  then show ?thesis by (simp add: error_def)
next
  case False
  with assms show ?thesis
    by (simp add: error_not_errored Let_def after_destroy_eq reject_onInit_def emit_fields
        split: option.splits promise.splits)
qed

lemma onInit_reject_fields:
  "onInit s = Pending \<Longrightarrow>
     onInit_reject E e s = snd (error E e (Some (ctor_props s)) (s\<lparr>onInit := Rejected e\<rparr>))"
  "onInit s = Pending \<Longrightarrow> onInit (onInit_reject E e s) = Rejected e"
  "onInit s = Pending \<Longrightarrow> errored (onInit_reject E e s)"
  "onInit s \<noteq> Pending \<Longrightarrow> onInit_reject E e s = s"
  by (simp_all add: onInit_reject_def error_keeps_onInit errored_after_error split: promise.splits)

text \<open>
  C7, as the code has it. For a target other than this window: if the target is not
  under the same top window, \<open>checkAllowRemoteRender\<close> throws, and \<open>renderTo\<close> neither
  delegates nor renders (its result does not depend on \<open>render\<close> and \<open>delegate\<close>, so no
  window was opened). \<open>renderTo\<close> itself does not throw: it rejects the ready signal
  with the error and returns the signal. So when the signal was pending, the promise
  returned is rejected with the error and the error handling of the instance has run;
  when the signal had resolved, the promise returned is resolved and nothing has
  changed; when the signal had been rejected, the promise returned is rejected with
  that earlier error and nothing has changed. If the target is under the same top
  window and cross-origin, and the component's domain is known and does not match the
  origin of this window, the error names that domain and this origin, and \<open>renderTo\<close>
  treats it in the same way. An element that is not a string is refused before either
  check, and the error is then the one about the element.
\<close>

theorem renderTo_guard:
  assumes "w \<noteq> this_window E"
  shows
   "let adjacent = Error ''Can only renderTo an adjacent frame'';
        remote = (\<lambda>d. Error (''Can not render remotely to '' @ d @ '' - can only render to ''
                             @ origin E));
        refused = (\<lambda>e. case el of
                     Some (NotString ty printed) \<Rightarrow>
                       Error (''Element passed to renderTo must be a string selector, got ''
                              @ ty @ '' '' @ printed)
                   | _ \<Rightarrow> e);
        handled = (\<lambda>e. snd (error E e (Some (ctor_props s)) (s\<lparr>onInit := Rejected e\<rparr>)));
        fails = (\<lambda>e. renderTo E render delegate (Some w) el s =
                   (case onInit s of
                      Pending \<Rightarrow> (Rejected (refused e), handled (refused e))
                    | Resolved v \<Rightarrow> (Resolved v, s)
                    | Rejected earlier \<Rightarrow> (Rejected earlier, s)))
    in (\<not> isSameTopWindow E (this_window E) w \<longrightarrow>
          checkAllowRemoteRender E (Some w) = Inl adjacent \<and> fails adjacent) \<and>
       (isSameTopWindow E (this_window E) w \<and> \<not> isSameDomain E w \<and>
        component_domain E = Some d \<and> d \<noteq> [] \<and> \<not> matchDomain E d (origin E) \<longrightarrow>
          checkAllowRemoteRender E (Some w) = Inl (remote d) \<and> fails (remote d)) \<and>
       (\<forall>e. onInit s = Pending \<longrightarrow>
              onInit (handled e) = Rejected e \<and> errored (handled e))"
proof -
  have f: "tryInit E (\<lambda>s. (Rejected e, s)) s =
      (case onInit s of
         Pending \<Rightarrow> (Rejected e, snd (error E e (Some (ctor_props s)) (s\<lparr>onInit := Rejected e\<rparr>)))
       | Resolved v \<Rightarrow> (Resolved v, s)
       | Rejected earlier \<Rightarrow> (Rejected earlier, s))" for e
  proof (cases "onInit s")
    case Pending
    with onInit_reject_fields(1,2) [OF Pending, of E e] show ?thesis
      by (simp add: tryInit_def)
  next
    case (Resolved v)
    then show ?thesis by (simp add: tryInit_def onInit_reject_fields(4))
  next
    case (Rejected earlier)
    then show ?thesis by (simp add: tryInit_def onInit_reject_fields(4))
  qed
  have r: "checkAllowRemoteRender E (Some w) = Inl e \<Longrightarrow>
      renderTo E render delegate (Some w) el s =
        tryInit E (\<lambda>s. (Rejected (case el of
                     Some (NotString ty printed) \<Rightarrow>
                       Error (''Element passed to renderTo must be a string selector, got ''
                              @ ty @ '' '' @ printed)
                   | _ \<Rightarrow> e), s)) s" for e
    using assms
    by (simp add: renderTo_def tryInit_def split: option.splits element_ref.splits)
  have c1: "\<not> isSameTopWindow E (this_window E) w \<Longrightarrow>
      checkAllowRemoteRender E (Some w) = Inl (Error ''Can only renderTo an adjacent frame'')"
    by (simp add: checkAllowRemoteRender_def)
  have c2: "isSameTopWindow E (this_window E) w \<and> \<not> isSameDomain E w \<and>
        component_domain E = Some d \<and> d \<noteq> [] \<and> \<not> matchDomain E d (origin E) \<Longrightarrow>
      checkAllowRemoteRender E (Some w) =
        Inl (Error (''Can not render remotely to '' @ d @ '' - can only render to '' @ origin E))"
    by (simp add: checkAllowRemoteRender_def)
  have h: "onInit s = Pending \<Longrightarrow>
      onInit (snd (error E e (Some (ctor_props s)) (s\<lparr>onInit := Rejected e\<rparr>))) = Rejected e \<and>
      errored (snd (error E e (Some (ctor_props s)) (s\<lparr>onInit := Rejected e\<rparr>)))" for e
    by (simp add: error_keeps_onInit errored_after_error)
  show ?thesis
    unfolding Let_def
    using c1 r [OF c1] c2 r [OF c2] h by (simp add: f)
qed

theorem renderTo_guard_witness:
  "1 \<noteq> this_window env_other_top \<and>
   \<not> isSameTopWindow env_other_top (this_window env_other_top) 1 \<and>
   renderTo env_other_top render_stub delegate_stub (Some 1) None fresh_instance =
     (Rejected (Error ''Can only renderTo an adjacent frame''),
      fresh_instance\<lparr>errored := True,
        onInit := Rejected (Error ''Can only renderTo an adjacent frame''), clean := [],
        trace := [Log ''destroy'', CleanAll, Cleaned (Closure ''activeComponents''),
                  Cleaned (Closure ''unloadWindowListener.cancel'')]\<rparr>) \<and>
   isSameTopWindow env_foreign_component (this_window env_foreign_component) 1 \<and>
   \<not> isSameDomain env_foreign_component 1 \<and>
   \<not> matchDomain env_foreign_component ''https://other.example'' (origin env_foreign_component) \<and>
   fst (renderTo env_foreign_component render_stub delegate_stub (Some 1) None fresh_instance) =
     Rejected (Error ''Can not render remotely to https://other.example - can only render to https://component.example'') \<and>
   trace (snd (renderTo env_foreign_component render_stub delegate_stub (Some 1) None fresh_instance)) =
     [Log ''destroy'', CleanAll, Cleaned (Closure ''activeComponents''),
      Cleaned (Closure ''unloadWindowListener.cancel'')] \<and>
   fst (renderTo env_other_top render_stub delegate_stub (Some 1)
          (Some (NotString ''object'' ''[object Object]'')) fresh_instance) =
     Rejected (Error ''Element passed to renderTo must be a string selector, got object [object Object]'')"
proof -
  have p: "onInit fresh_instance = Pending" "\<not> errored fresh_instance"
    "ctor_props fresh_instance = \<lparr>onError = None\<rparr>"
    by (simp_all add: fresh_instance_def)
  have a: "1 \<noteq> this_window env_other_top" "1 \<noteq> this_window env_foreign_component"
    "\<not> isSameTopWindow env_other_top (this_window env_other_top) 1"
    "isSameTopWindow env_foreign_component (this_window env_foreign_component) 1"
    "\<not> isSameDomain env_foreign_component 1"
    "component_domain env_foreign_component = Some ''https://other.example''"
    "\<not> matchDomain env_foreign_component ''https://other.example'' (origin env_foreign_component)"
    "origin env_foreign_component = ''https://component.example''"
    by (simp_all add: env_other_top_def env_foreign_component_def env_resolving_def
        isSameDomain_def origin_def)
  have e: "snd (error E e (Some \<lparr>onError = None\<rparr>) (fresh_instance\<lparr>onInit := Rejected e\<rparr>)) =
      fresh_instance\<lparr>errored := True, onInit := Rejected e, clean := [],
        trace := [Log ''destroy'', CleanAll, Cleaned (Closure ''activeComponents''),
                  Cleaned (Closure ''unloadWindowListener.cancel'')]\<rparr>" for E e
    by (simp add: error_not_errored fresh_instance_def Let_def after_destroy_eq reject_onInit_def)
  from renderTo_guard [OF a(1), where el = None and s = fresh_instance and render = render_stub
        and delegate = delegate_stub and d = "[]"]
    renderTo_guard [OF a(2), where el = None and s = fresh_instance and render = render_stub
        and delegate = delegate_stub and d = "''https://other.example''"]
    renderTo_guard [OF a(1), where el = "Some (NotString ''object'' ''[object Object]'')"
        and s = fresh_instance and render = render_stub and delegate = delegate_stub and d = "[]"]
    p a e
  show ?thesis
    by (simp add: Let_def)
qed

text \<open>
  Against C7 as stated (a cross-origin target whose origin does not match the
  component's domain is refused): the instance lives in a page of the component's own
  domain and renders to a window of the host, whose origin is not the component's
  domain; \<open>checkAllowRemoteRender\<close> returns normally and \<open>renderTo\<close> delegates and
  renders. The check reads the origin of this window, never that of the target. And
  against the first half (\<open>renderTo\<close> throws): on an instance whose ready signal has
  resolved, \<open>renderTo\<close> to a window under another top window returns a resolved promise
  and changes nothing.
\<close>

theorem renderTo_counterexample:
  "\<not> isSameDomain env_resolving 1 \<and>
   component_domain env_resolving = Some ''https://component.example'' \<and>
   window_origin env_resolving 1 = ''https://host.example'' \<and>
   \<not> matchDomain env_resolving ''https://component.example'' (window_origin env_resolving 1) \<and>
   checkAllowRemoteRender env_resolving (Some 1) = Inr () \<and>
   renderTo env_resolving render_stub delegate_stub (Some 1) None fresh_instance =
     (Pending,
      fresh_instance\<lparr>trace := [Log ''render_to_win'', Log ''delegate'', Log ''render'']\<rparr>) \<and>
   \<not> isSameTopWindow env_other_top (this_window env_other_top) 1 \<and>
   checkAllowRemoteRender env_other_top (Some 1) =
     Inl (Error ''Can only renderTo an adjacent frame'') \<and>
   renderTo env_other_top render_stub delegate_stub (Some 1) None
       (fresh_instance\<lparr>onInit := Resolved ()\<rparr>) =
     (Resolved (), fresh_instance\<lparr>onInit := Resolved ()\<rparr>)"
  by (simp add: env_resolving_def env_other_top_def isSameDomain_def origin_def
      checkAllowRemoteRender_def renderTo_def tryInit_def render_stub_def delegate_stub_def
      emit_def fresh_instance_def onInit_reject_def)

subsection \<open>The global registries\<close>

lemma props_after_absent: "m uid = None \<Longrightarrow> props_after as m uid = None"
  by (induction as m rule: props_after.induct) auto

lemma props_after_deleted: "DeleteGlobalProps uid \<in> set as \<Longrightarrow> props_after as m uid = None"
  by (induction as m rule: props_after.induct) (auto simp add: props_after_absent)

lemma windows_after_absent: "m uid = None \<Longrightarrow> windows_after as m uid = None"
  by (induction as m rule: windows_after.induct) auto

lemma windows_after_deleted: "DeleteGlobalWindows uid \<in> set as \<Longrightarrow> windows_after as m uid = None"
  by (induction as m rule: windows_after.induct) (auto simp add: windows_after_absent)

lemma destroy_deletes_props:
  assumes "(tg, DeleteGlobalProps uid) \<in> set (clean t)"
  shows "global_props (after_destroy t) uid = None"
proof -
  from assms have "DeleteGlobalProps uid \<in> set (map snd (clean t))" by force
  moreover from assms have "clean t \<noteq> []" by auto
  ultimately show ?thesis by (simp add: after_destroy_eq props_after_deleted)
qed

lemma destroy_deletes_windows:
  assumes "(tg, DeleteGlobalWindows uid) \<in> set (clean t)"
  shows "global_windows (after_destroy t) uid = None"
proof -
  from assms have "DeleteGlobalWindows uid \<in> set (map snd (clean t))" by force
  moreover from assms have "clean t \<noteq> []" by auto
  ultimately show ?thesis by (simp add: after_destroy_eq windows_after_deleted)
qed

lemma build_pairs:
  assumes "\<not> isSameDomain E target"
  shows
   "let r = buildChildWindowName E proxyWin domain (Some target) s;
        uid = payload_uid (fst r)
    in payload_props (fst r) = UID uid \<and>
       global_props (snd r) uid = Some (serializeMessage E proxyWin domain PropsForChild) \<and>
       (None, DeleteGlobalProps uid) \<in> set (clean (snd r)) \<and>
       (\<forall>u. componentParent (fst r) = GLOBAL u \<longrightarrow>
            global_windows (snd r) u = Some (this_window E) \<and>
            (None, DeleteGlobalWindows u) \<in> set (clean (snd r)))"
  using assms
  by (auto simp add: buildChildWindowName_def getComponentParentRef_def next_uniqueID_def
      clean_register_def Let_def split: prod.splits if_splits)


lemma error_globals:
  assumes "\<not> errored s"
  shows "global_props (snd (error E err pr s)) = global_props (after_destroy (reject_onInit err (s\<lparr>errored := True\<rparr>)))"
    and "global_windows (snd (error E err pr s)) = global_windows (after_destroy (reject_onInit err (s\<lparr>errored := True\<rparr>)))"
  using assms
  by (simp_all add: error_not_errored Let_def emit_fields split: option.splits promise.splits)

lemma reject_onInit_clean': "clean (reject_onInit err (s\<lparr>errored := True\<rparr>)) = clean s"
  by (simp add: reject_onInit_def split: promise.splits)

text \<open>
  C6. When the target is not of this window's domain, \<open>buildChildWindowName\<close> takes the
  UID path: it writes the serialized props into \<open>global.props\<close> under the generated
  uid and registers the deletion of that entry; when the parent reference is the
  global one, \<open>getComponentParentRef\<close> has done the same in \<open>global.windows\<close> under its
  own uid. After \<open>destroy\<close>, and after \<open>error\<close> on an instance that has not errored
  (which runs \<open>destroy\<close>), both entries are absent. More generally \<open>destroy\<close> removes
  the entry of every deletion still registered.
\<close>

theorem registry_hygiene:
  assumes "\<not> isSameDomain E target"
  shows
   "let r = buildChildWindowName E proxyWin domain (Some target) s;
        s1 = snd r;
        uid = payload_uid (fst r)
    in payload_props (fst r) = UID uid \<and>
       global_props s1 uid = Some (serializeMessage E proxyWin domain PropsForChild) \<and>
       (None, DeleteGlobalProps uid) \<in> set (clean s1) \<and>
       global_props (snd (destroy s1)) uid = None \<and>
       (\<not> errored s1 \<longrightarrow> global_props (snd (error E err pr s1)) uid = None) \<and>
       (\<forall>u. componentParent (fst r) = GLOBAL u \<longrightarrow>
            global_windows s1 u = Some (this_window E) \<and>
            (None, DeleteGlobalWindows u) \<in> set (clean s1) \<and>
            global_windows (snd (destroy s1)) u = None \<and>
            (\<not> errored s1 \<longrightarrow> global_windows (snd (error E err pr s1)) u = None)) \<and>
       (ctx s \<noteq> POPUP \<and> target \<noteq> this_window E \<longrightarrow>
          componentParent (fst r) = GLOBAL (uniqueID E (Suc (uid_calls s)))) \<and>
       (\<forall>t tg k. (tg, DeleteGlobalProps k) \<in> set (clean t) \<longrightarrow>
                 global_props (snd (destroy t)) k = None) \<and>
       (\<forall>t tg k. (tg, DeleteGlobalWindows k) \<in> set (clean t) \<longrightarrow>
                 global_windows (snd (destroy t)) k = None)"
proof -
  define r where "r = buildChildWindowName E proxyWin domain (Some target) s"
  define uid where "uid = payload_uid (fst r)"
  have b1: "payload_props (fst r) = UID uid"
    and b2: "global_props (snd r) uid = Some (serializeMessage E proxyWin domain PropsForChild)"
    and b3: "(None, DeleteGlobalProps uid) \<in> set (clean (snd r))"
    and b4: "\<And>u. componentParent (fst r) = GLOBAL u \<Longrightarrow>
            global_windows (snd r) u = Some (this_window E) \<and>
            (None, DeleteGlobalWindows u) \<in> set (clean (snd r))"
    using build_pairs [OF assms, of proxyWin domain s] by (simp_all add: Let_def r_def uid_def)
  have d: "global_props (snd (destroy t)) k = None" if "(tg, DeleteGlobalProps k) \<in> set (clean t)" for t tg k
    using destroy_deletes_props [OF that] by (simp add: after_destroy_def)
  have dw: "global_windows (snd (destroy t)) k = None" if "(tg, DeleteGlobalWindows k) \<in> set (clean t)" for t tg k
    using destroy_deletes_windows [OF that] by (simp add: after_destroy_def)
  have e: "global_props (snd (error E err pr t)) k = None"
    if "(tg, DeleteGlobalProps k) \<in> set (clean t)" "\<not> errored t" for t tg k
    using that destroy_deletes_props [of tg k "reject_onInit err (t\<lparr>errored := True\<rparr>)"]
    by (simp add: error_globals reject_onInit_clean')
  have ew: "global_windows (snd (error E err pr t)) k = None"
    if "(tg, DeleteGlobalWindows k) \<in> set (clean t)" "\<not> errored t" for t tg k
    using that destroy_deletes_windows [of tg k "reject_onInit err (t\<lparr>errored := True\<rparr>)"]
    by (simp add: error_globals reject_onInit_clean')
  have g: "ctx s \<noteq> POPUP \<and> target \<noteq> this_window E \<longrightarrow>
          componentParent (fst r) = GLOBAL (uniqueID E (Suc (uid_calls s)))"
    by (simp add: r_def buildChildWindowName_def getComponentParentRef_def next_uniqueID_def
        clean_register_def Let_def split: prod.splits)
  have c4: "global_props (snd (destroy (snd r))) uid = None"
    using d [OF b3] .
  have c5: "\<not> errored (snd r) \<longrightarrow> global_props (snd (error E err pr (snd r))) uid = None"
    using e [OF b3] by simp
  have c6: "\<forall>u. componentParent (fst r) = GLOBAL u \<longrightarrow>
            global_windows (snd r) u = Some (this_window E) \<and>
            (None, DeleteGlobalWindows u) \<in> set (clean (snd r)) \<and>
            global_windows (snd (destroy (snd r))) u = None \<and>
            (\<not> errored (snd r) \<longrightarrow> global_windows (snd (error E err pr (snd r))) u = None)"
  proof (intro allI impI)
    fix u assume "componentParent (fst r) = GLOBAL u"
    from b4 [OF this] show "global_windows (snd r) u = Some (this_window E) \<and>
            (None, DeleteGlobalWindows u) \<in> set (clean (snd r)) \<and>
            global_windows (snd (destroy (snd r))) u = None \<and>
            (\<not> errored (snd r) \<longrightarrow> global_windows (snd (error E err pr (snd r))) u = None)"
      using dw ew by blast
  qed
  have c8: "\<forall>t tg k. (tg, DeleteGlobalProps k) \<in> set (clean t) \<longrightarrow>
                 global_props (snd (destroy t)) k = None"
    using d by simp
  have c9: "\<forall>t tg k. (tg, DeleteGlobalWindows k) \<in> set (clean t) \<longrightarrow>
                 global_windows (snd (destroy t)) k = None"
    using dw by simp
  from b1 b2 b3 c4 c5 c6 g c8 c9 show ?thesis
    unfolding Let_def r_def [symmetric] uid_def [symmetric] by (intro conjI)
qed

theorem registry_hygiene_witness:
  "\<not> isSameDomain env_resolving 1 \<and>
   fst (buildChildWindowName env_resolving 5 ''https://component.example'' (Some 1) fresh_instance) =
     \<lparr>payload_id = ''uidxx'', payload_context = IFRAME, payload_domain = ''https://component.example'',
      payload_uid = ''uid'', payload_tag = ''my-component'', componentParent = GLOBAL ''uidx'',
      payload_props = UID ''uid'', payload_exports = ''exports''\<rparr> \<and>
   global_props (snd (buildChildWindowName env_resolving 5 ''https://component.example'' (Some 1)
                        fresh_instance)) ''uid'' = Some ''props'' \<and>
   global_windows (snd (buildChildWindowName env_resolving 5 ''https://component.example'' (Some 1)
                        fresh_instance)) ''uidx'' = Some 0 \<and>
   global_props (snd (destroy (snd (buildChildWindowName env_resolving 5
                        ''https://component.example'' (Some 1) fresh_instance)))) ''uid'' = None \<and>
   global_windows (snd (destroy (snd (buildChildWindowName env_resolving 5
                        ''https://component.example'' (Some 1) fresh_instance)))) ''uidx'' = None"
proof -
  have h: "\<not> isSameDomain env_resolving 1"
    by (simp add: isSameDomain_def origin_def env_resolving_def)
  have v: "fst (buildChildWindowName env_resolving 5 ''https://component.example'' (Some 1) fresh_instance) =
     \<lparr>payload_id = ''uidxx'', payload_context = IFRAME, payload_domain = ''https://component.example'',
      payload_uid = ''uid'', payload_tag = ''my-component'', componentParent = GLOBAL ''uidx'',
      payload_props = UID ''uid'', payload_exports = ''exports''\<rparr>"
    by code_simp
  have w: "this_window env_resolving = 0"
    "serializeMessage env_resolving 5 ''https://component.example'' PropsForChild = ''props''"
    by (simp_all add: env_resolving_def)
  from registry_hygiene [OF h, of 5 "''https://component.example''" fresh_instance
      "Error ''x''" None] h v w
  show ?thesis
    by (simp add: Let_def)
qed

subsection \<open>The task graph\<close>

lemma run_events_append:
  "run_events r (xs @ ys) g =
     (case run_events r xs g of None \<Rightarrow> None | Some g' \<Rightarrow> run_events r ys g')"
  by (induction xs arbitrary: g) (auto split: option.splits)

lemma step_done:
  assumes "step r e g = Some g'" and "g' d = Done"
  shows "g d = Done \<or> e = Settle d True"
  using assms by (cases e) (auto split: if_splits)

lemma run_events_done:
  assumes "run_events r es g = Some g'" and "g' d = Done"
  shows "g d = Done \<or> Settle d True \<in> set es"
  using assms
proof (induction es arbitrary: g)
  case Nil
  then show ?case by simp
next
  case (Cons e es)
  from Cons.prems(1) obtain g1 where s: "step r e g = Some g1" and rest: "run_events r es g1 = Some g'"
    by (auto split: option.splits)
  from Cons.IH [OF rest Cons.prems(2)] have "g1 d = Done \<or> Settle d True \<in> set es" .
  then show ?case
  proof
    assume "g1 d = Done"
    with step_done [OF s] show ?thesis by auto
  next
    assume "Settle d True \<in> set es"
    then show ?thesis by simp
  qed
qed

lemma begin_needs:
  assumes "run_events r (pre @ Begin t # post) g = Some g'"
  shows "\<exists>g1. run_events r pre g = Some g1 \<and> g1 (Task t) = Waiting \<and>
              (\<forall>d \<in> set (dependencies r t). g1 d = Done)"
  using assms
  by (auto simp add: run_events_append list_all_iff split: option.splits if_splits)

text \<open>
  C4. In every run of the task graph, from the moment \<open>render\<close> is entered and in any
  order of events: when the handler of \<open>setWindowName\<close> begins, \<open>open\<close> and \<open>getDomain\<close>
  have resolved, each by an event before; when the handler of \<open>switchPrerender\<close> begins,
  \<open>prerender\<close> has resolved by an event before and the ready signal has resolved, by an
  event before or already when \<open>render\<close> was entered.
\<close>

theorem render_dependency_order:
  assumes "run_events r (pre @ Begin t # post) (render_start ready) = Some g"
  shows
   "(t = SetWindowName \<longrightarrow>
       Settle (Task Open) True \<in> set pre \<and> Settle (Task GetDomain) True \<in> set pre) \<and>
    (t = SwitchPrerender \<longrightarrow>
       Settle (Task Prerender) True \<in> set pre \<and>
       (Settle ReadySignal True \<in> set pre \<or> ready = Done)) \<and>
    (\<exists>g1. run_events r pre (render_start ready) = Some g1 \<and>
          (t = SetWindowName \<longrightarrow> g1 (Task Open) = Done \<and> g1 (Task GetDomain) = Done) \<and>
          (t = SwitchPrerender \<longrightarrow> g1 (Task Prerender) = Done \<and> g1 ReadySignal = Done))"
proof -
  from begin_needs [OF assms] obtain g1 where
    g1: "run_events r pre (render_start ready) = Some g1"
    and deps: "\<forall>d \<in> set (dependencies r t). g1 d = Done"
    by blast
  have settled: "Settle d True \<in> set pre \<or> render_start ready d = Done" if "g1 d = Done" for d
    using run_events_done [OF g1 that] by blast
  have task: "Settle (Task u) True \<in> set pre" if "g1 (Task u) = Done" for u
    using settled [OF that] by (simp add: render_start_def)
  have sig: "Settle ReadySignal True \<in> set pre \<or> ready = Done" if "g1 ReadySignal = Done"
    using settled [OF that] by (simp add: render_start_def)
  show ?thesis
    using g1 deps task sig by auto
qed

theorem render_dependency_order_witness:
  "run_events True (schedule_example @ Begin SetWindowName # [Begin SwitchPrerender])
     (render_start Running) \<noteq> None \<and>
   Settle (Task Open) True \<in> set schedule_example \<and>
   Settle (Task GetDomain) True \<in> set schedule_example \<and>
   run_events True (schedule_example @ Begin SwitchPrerender # []) (render_start Running) \<noteq> None \<and>
   Settle (Task Prerender) True \<in> set schedule_example \<and>
   Settle ReadySignal True \<in> set schedule_example \<and>
   run_events True [Begin GetDomain, Begin Open] (render_start Running) = None \<and>
   run_events False [Begin GetDomain, Begin Open, Settle (Task Open) True, Begin SetWindowName]
     (render_start Running) = None"
proof -
  obtain g where a: "run_events True (schedule_example @ Begin SetWindowName # [Begin SwitchPrerender])
     (render_start Running) = Some g"
    by (simp add: schedule_example_def render_start_def)
  obtain g' where b: "run_events True (schedule_example @ Begin SwitchPrerender # [])
     (render_start Running) = Some g'"
    by (simp add: schedule_example_def render_start_def)
  have c: "run_events True [Begin GetDomain, Begin Open] (render_start Running) = None"
    "run_events False [Begin GetDomain, Begin Open, Settle (Task Open) True, Begin SetWindowName]
     (render_start Running) = None"
    by (simp_all add: render_start_def)
  from render_dependency_order [OF a] render_dependency_order [OF b] a b c show ?thesis
    by simp
qed

subsection \<open>What the closing methods add to the trace\<close>

lemma onClose_reasons_append [simp]:
  "onClose_reasons (xs @ ys) = onClose_reasons xs @ onClose_reasons ys"
  by (induction xs rule: onClose_reasons.induct) auto

lemma onClose_reasons_Cleaned [simp]: "onClose_reasons (map Cleaned as) = []"
  by (induction as) auto

lemma count_CleanAll_Cleaned [simp]: "count_list (map Cleaned as) CleanAll = 0"
  by (induction as) auto

lemma onClose_reasons_Cleaned' [simp]: "onClose_reasons (map (Cleaned \<circ> f) xs) = []"
  by (induction xs) auto

lemma count_CleanAll_Cleaned' [simp]: "count_list (map (Cleaned \<circ> f) xs) CleanAll = 0"
  by (induction xs) auto

lemma quiet_simps [simp]:
  "quiet []"
  "quiet (map Cleaned as)"
  "quiet (map (Cleaned \<circ> f) ps)"
  "quiet [TriggerEvent n]"
  "quiet [AnimateAndHide el a]"
  "quiet [ChildClose]"
  "quiet [Log l]"
  "quiet (xs @ ys) \<longleftrightarrow> quiet xs \<and> quiet ys"
  by (auto simp add: quiet_def)
































subsection \<open>close\<close>






























end
